theory Spec2Isabelle
  imports Complex_Main
begin

section \<open>Python values\<close>

text \<open>
  \<^verbatim>\<open>JiraSearchResult.from_api_response(cls, data: dict[str, Any], **kwargs)\<close> receives a
  decoded JSON document, and its first two statements test that the argument really is a
  non-empty \<^verbatim>\<open>dict\<close>. The values it can meet are therefore the values the JSON decoder
  builds: \<^verbatim>\<open>None\<close>, booleans, unbounded integers, floats, strings, lists and
  string-keyed dictionaries.

  A float is a finite number, one of the two infinities or a NaN (the decoder reads
  \<^verbatim>\<open>Infinity\<close>, \<^verbatim>\<open>-Infinity\<close>, \<^verbatim>\<open>NaN\<close> and an overflowing literal such as
  \<^verbatim>\<open>1e999\<close>). A finite float is carried as the rational number it denotes: the code
  only truncates it (\<^verbatim>\<open>int(x)\<close>) and tests it against zero (\<^verbatim>\<open>if x\<close>), and both read
  nothing but that number.

  A dictionary is an association list in insertion order; a lookup takes the first
  binding of a key, and a real \<^verbatim>\<open>dict\<close> never has two.
\<close>

datatype pyfloat = Finite rat | PosInf | NegInf | NaN

datatype pyval =
    PNone
  | PBool bool
  | PInt int
  | PFloat pyfloat
  | PStr string
  | PList "pyval list"
  | PDict "(string \<times> pyval) list"

type_synonym pydict = "(string \<times> pyval) list"

text \<open>The exceptions \<^verbatim>\<open>int()\<close> raises on these values.\<close>

datatype py_error = ValueError | TypeError | OverflowError

text \<open>Truth value testing (\<^verbatim>\<open>if x\<close>, \<^verbatim>\<open>not x\<close>): \<^verbatim>\<open>None\<close>, \<^verbatim>\<open>False\<close>, zero of either
  numeric type and the empty string, list and dictionary are false; NaN and the
  infinities are true.\<close>

fun truthy :: "pyval \<Rightarrow> bool" where
  "truthy PNone = False"
| "truthy (PBool b) = b"
| "truthy (PInt n) = (n \<noteq> 0)"
| "truthy (PFloat x) = (x \<noteq> Finite 0)"
| "truthy (PStr s) = (s \<noteq> [])"
| "truthy (PList xs) = (xs \<noteq> [])"
| "truthy (PDict kvs) = (kvs \<noteq> [])"

text \<open>\<^verbatim>\<open>d.get(key, default)\<close> and \<^verbatim>\<open>key in d\<close>.\<close>

definition dict_get :: "pydict \<Rightarrow> string \<Rightarrow> pyval \<Rightarrow> pyval" where
  "dict_get d key dflt = (case map_of d key of None \<Rightarrow> dflt | Some v \<Rightarrow> v)"

definition dict_contains :: "pydict \<Rightarrow> string \<Rightarrow> bool" where
  "dict_contains d key = (map_of d key \<noteq> None)"

section \<open>The builtin \<^verbatim>\<open>int()\<close>\<close>

text \<open>
  \<^verbatim>\<open>int(x)\<close> on a float truncates towards zero, raises \<^verbatim>\<open>ValueError\<close> on NaN and
  \<^verbatim>\<open>OverflowError\<close> on an infinity.
\<close>

fun int_of_float :: "pyfloat \<Rightarrow> py_error + int" where
  "int_of_float (Finite q) = Inr (if 0 \<le> q then \<lfloor>q\<rfloor> else \<lceil>q\<rceil>)"
| "int_of_float PosInf = Inl OverflowError"
| "int_of_float NegInf = Inl OverflowError"
| "int_of_float NaN = Inl ValueError"

text \<open>
  \<^verbatim>\<open>int(s)\<close> on a string, for ASCII text. Leading and trailing whitespace is skipped: for
  an ASCII string that is the space and the five controls \<^verbatim>\<open>\t \n \v \f \r\<close>, and no other
  character (the separators \<^verbatim>\<open>\x1c\<close> to \<^verbatim>\<open>\x1f\<close>, which \<^verbatim>\<open>str.strip\<close> drops, are not
  skipped here). One sign may lead, and what is left must be decimal digits, where a single
  underscore may stand between two digits. A string with more digits than the interpreter's
  limit, 4300 by default, is refused whatever the digits are. Every refusal is a
  \<^verbatim>\<open>ValueError\<close>, here \<open>None\<close>.
\<close>

definition is_int_space :: "char \<Rightarrow> bool" where
  "is_int_space c = (c \<in> set [CHR 0x20, CHR 0x09, CHR 0x0A, CHR 0x0B, CHR 0x0C, CHR 0x0D])"

definition int_max_str_digits :: nat where
  "int_max_str_digits = 4300"

definition is_digit :: "char \<Rightarrow> bool" where
  "is_digit c = (let n = (of_char c :: nat) in 48 \<le> n \<and> n \<le> 57)"

definition digit_val :: "char \<Rightarrow> int" where
  "digit_val c = int (of_char c) - 48"

text \<open>The flag says whether the character just read was a digit: an underscore needs
  one before it and one after it.\<close>

fun parse_digits :: "bool \<Rightarrow> int \<Rightarrow> string \<Rightarrow> int option" where
  "parse_digits after_digit acc [] = (if after_digit then Some acc else None)"
| "parse_digits after_digit acc (c # cs) =
     (if is_digit c then parse_digits True (10 * acc + digit_val c) cs
      else if c = CHR ''_'' \<and> after_digit then parse_digits False acc cs
      else None)"

text \<open>The digits behind the sign: counted against the limit first, then read.\<close>

definition int_literal :: "string \<Rightarrow> int option" where
  "int_literal body =
     (if int_max_str_digits < length (filter is_digit body) then None
      else parse_digits False 0 body)"

definition int_of_str :: "string \<Rightarrow> int option" where
  "int_of_str s =
     (case rev (dropWhile is_int_space (rev (dropWhile is_int_space s))) of
        [] \<Rightarrow> None
      | c # cs \<Rightarrow>
          if c = CHR ''-'' then map_option uminus (int_literal cs)
          else if c = CHR ''+'' then int_literal cs
          else int_literal (c # cs))"

fun py_int :: "pyval \<Rightarrow> py_error + int" where
  "py_int PNone = Inl TypeError"
| "py_int (PBool b) = Inr (if b then 1 else 0)"
| "py_int (PInt n) = Inr n"
| "py_int (PFloat x) = int_of_float x"
| "py_int (PStr s) = (case int_of_str s of None \<Rightarrow> Inl ValueError | Some n \<Rightarrow> Inr n)"
| "py_int (PList xs) = Inl TypeError"
| "py_int (PDict kvs) = Inl TypeError"

section \<open>The search result model\<close>

text \<open>
  Modelled from the spec: \<^verbatim>\<open>JiraIssue\<close> (\<^verbatim>\<open>models/jira/issue.py\<close>) is imported by
  \<^verbatim>\<open>search.py\<close> and is not among the sources. The spec calls it an external collaborator
  with a minimal constructor \<^verbatim>\<open>Issue(key=...)\<close> and a factory
  \<^verbatim>\<open>Issue.from_response(data, requested_fields)\<close>, and says the normalizer does not know its
  schema. An issue is therefore the record of which of the two was called, on which
  arguments.
\<close>

datatype JiraIssue =
    IssueKey string
  | IssueFromResponse pyval pyval

record JiraSearchResult =
  total :: int
  start_at :: int
  max_results :: int
  issues :: "JiraIssue list"

text \<open>\<^verbatim>\<open>cls()\<close>: every field at its declared default.\<close>

definition default_result :: JiraSearchResult where
  "default_result = \<lparr>total = 0, start_at = 0, max_results = 0, issues = []\<rparr>"

datatype log_record = Debug string

text \<open>
  The loop over \<^verbatim>\<open>issues_data\<close>, with the list \<^verbatim>\<open>issues\<close> it appends to (\<open>acc\<close>):
  \<^verbatim>\<open>
  for issue_data in issues_data:
      if issue_data:
          if isinstance(issue_data, str):
              issues.append(JiraIssue(key=issue_data))
          else:
              requested_fields = kwargs.get("requested_fields")
              issues.append(JiraIssue.from_api_response(
                  issue_data, requested_fields=requested_fields))
  \<close>
\<close>

fun collect_issues :: "pydict \<Rightarrow> JiraIssue list \<Rightarrow> pyval list \<Rightarrow> JiraIssue list" where
  "collect_issues kwargs acc [] = acc"
| "collect_issues kwargs acc (issue_data # rest) =
     (if truthy issue_data then
        (case issue_data of
           PStr key \<Rightarrow> collect_issues kwargs (acc @ [IssueKey key]) rest
         | _ \<Rightarrow>
             collect_issues kwargs
               (acc @ [IssueFromResponse issue_data (dict_get kwargs ''requested_fields'' PNone)])
               rest)
      else collect_issues kwargs acc rest)"

text \<open>
  One of the three guarded conversions:
  \<^verbatim>\<open>
  try:
      x = int(raw) if raw is not None else default
  except (ValueError, TypeError):
      x = default
  \<close>
  Only the two exceptions named are caught; any other leaves the function.
\<close>

definition int_or_default :: "pyval \<Rightarrow> int \<Rightarrow> py_error + int" where
  "int_or_default raw dflt =
     (case (if raw \<noteq> PNone then py_int raw else Inr dflt) of
        Inr n \<Rightarrow> Inr n
      | Inl ValueError \<Rightarrow> Inr dflt
      | Inl TypeError \<Rightarrow> Inr dflt
      | Inl e \<Rightarrow> Inl e)"

text \<open>
  \<^verbatim>\<open>from_api_response\<close>. The result pairs what was sent to the logger with either the
  exception that left the function or the model returned.
\<close>

definition from_api_response :: "pyval \<Rightarrow> pydict \<Rightarrow> log_record list \<times> (py_error + JiraSearchResult)" where
  "from_api_response data kwargs =
     (if \<not> truthy data then ([], Inr default_result)
      else case data of
        PDict d \<Rightarrow>
          (let issues_data = dict_get d ''issues'' (PList []);
               issues' = (case issues_data of PList xs \<Rightarrow> collect_issues kwargs [] xs | _ \<Rightarrow> []);
               raw_total = dict_get d ''total'' PNone;
               raw_start_at = dict_get d ''startAt'' PNone;
               raw_max_results = dict_get d ''maxResults'' PNone
           in case (if raw_total = PNone \<and> dict_contains d ''isLast''
                    then Inr (if truthy (dict_get d ''isLast'' (PBool False))
                              then int (length issues') else - 1)
                    else int_or_default raw_total (- 1)) of
                Inl e \<Rightarrow> ([], Inl e)
              | Inr total' \<Rightarrow>
                  (case int_or_default raw_start_at 0 of
                     Inl e \<Rightarrow> ([], Inl e)
                   | Inr start_at' \<Rightarrow>
                       (case int_or_default raw_max_results (- 1) of
                          Inl e \<Rightarrow> ([], Inl e)
                        | Inr max_results' \<Rightarrow>
                            ([], Inr \<lparr>total = total', start_at = start_at',
                                       max_results = max_results', issues = issues'\<rparr>))))
      | _ \<Rightarrow> ([Debug ''Received non-dictionary data, returning default instance''],
              Inr default_result))"

section \<open>Reading the normalizer's contract\<close>

text \<open>
  The vocabulary the properties below are stated in; none of it is called by the code.

  \<open>is_dict\<close> is \<^verbatim>\<open>isinstance(data, dict)\<close>. \<open>is_infinity\<close> singles out the two float
  infinities, the values on which \<^verbatim>\<open>int()\<close> raises \<^verbatim>\<open>OverflowError\<close>.
\<close>

fun is_dict :: "pyval \<Rightarrow> bool" where
  "is_dict (PDict kvs) = True"
| "is_dict v = False"

fun is_infinity :: "pyval \<Rightarrow> bool" where
  "is_infinity (PFloat PosInf) = True"
| "is_infinity (PFloat NegInf) = True"
| "is_infinity v = False"

text \<open>
  The coercion rule in the spec's words: attempt integer conversion; on a conversion
  failure, \<^verbatim>\<open>None\<close> included, take the field's default.
\<close>

definition coerced :: "pyval \<Rightarrow> int \<Rightarrow> int" where
  "coerced raw dflt = (case py_int raw of Inl e \<Rightarrow> dflt | Inr n \<Rightarrow> n)"

text \<open>The issue one retained element of \<^verbatim>\<open>issues_data\<close> stands for.\<close>

definition issue_of :: "pydict \<Rightarrow> pyval \<Rightarrow> JiraIssue" where
  "issue_of kwargs issue_data =
     (case issue_data of
        PStr key \<Rightarrow> IssueKey key
      | _ \<Rightarrow> IssueFromResponse issue_data (dict_get kwargs ''requested_fields'' PNone))"

text \<open>
  The issues a response carries: one for each element of its \<^verbatim>\<open>issues\<close> list that is
  not falsy, in the list's order; none when \<^verbatim>\<open>issues\<close> is missing or is not a list.
\<close>

definition issues_in :: "pydict \<Rightarrow> pydict \<Rightarrow> JiraIssue list" where
  "issues_in kwargs d =
     (case dict_get d ''issues'' (PList []) of
        PList xs \<Rightarrow> map (issue_of kwargs) (filter truthy xs)
      | _ \<Rightarrow> [])"

text \<open>
  The condition of the branch that infers \<^verbatim>\<open>total\<close>, on the dictionary itself: the key
  \<^verbatim>\<open>total\<close> is absent or bound to \<^verbatim>\<open>None\<close>, and the key \<^verbatim>\<open>isLast\<close> is present.
\<close>

definition infers_total :: "pydict \<Rightarrow> bool" where
  "infers_total d =
     ((map_of d ''total'' = None \<or> map_of d ''total'' = Some PNone) \<and> map_of d ''isLast'' \<noteq> None)"

text \<open>None of the three pagination fields is an infinite float.\<close>

definition no_infinite_field :: "pydict \<Rightarrow> bool" where
  "no_infinite_field d =
     (\<not> is_infinity (dict_get d ''total'' PNone)
      \<and> \<not> is_infinity (dict_get d ''startAt'' PNone)
      \<and> \<not> is_infinity (dict_get d ''maxResults'' PNone))"

section \<open>The query composer\<close>

text \<open>
  The query composer is part of \<^verbatim>\<open>SearchMixin.search_issues\<close>
  (\<^verbatim>\<open>mcp_atlassian/jira/search.py\<close>), which is not among the sources; only its tests
  (\<^verbatim>\<open>tests/unit/jira/test_search.py\<close>) are. Every definition of this section is
  therefore written from section 4.2 of the spec, and checked against the strings
  the tests expect. A query or a key list that is absent is \<open>None\<close>.
\<close>

text \<open>Modelled from the spec: a project key between double quotes, and the keys joined by
  a comma and a space, as the predicates of section 4.2 are written
  (\<^verbatim>\<open>SearchMixin.search_issues\<close> is missing).\<close>

definition quoted :: "string \<Rightarrow> string" where
  "quoted k = CHR 0x22 # k @ [CHR 0x22]"

fun join :: "string \<Rightarrow> string list \<Rightarrow> string" where
  "join sep [] = []"
| "join sep [x] = x"
| "join sep (x # y # ys) = x @ sep @ join sep (y # ys)"

text \<open>Modelled from the spec: the project predicate of section 4.2, \<^verbatim>\<open>project = "K"\<close> for
  one key and \<^verbatim>\<open>project IN ("K1", "K2", ...)\<close> for several
  (\<^verbatim>\<open>SearchMixin.search_issues\<close> is missing).\<close>

definition project_predicate :: "string list \<Rightarrow> string" where
  "project_predicate keys =
     (case keys of
        [k] \<Rightarrow> ''project = '' @ quoted k
      | _ \<Rightarrow> ''project IN ('' @ join '', '' (map quoted keys) @ '')'')"

text \<open>Modelled from the spec: the whitespace that may stand in front of \<^verbatim>\<open>ORDER BY\<close>
  (\<^verbatim>\<open>SearchMixin.search_issues\<close> is missing). The spec says "whitespace"; on ASCII text
  that is what \<^verbatim>\<open>str.strip\<close> drops, the space, \<^verbatim>\<open>\t \n \v \f \r\<close> and the separators
  \<^verbatim>\<open>\x1c\<close> to \<^verbatim>\<open>\x1f\<close>.\<close>

definition is_space :: "char \<Rightarrow> bool" where
  "is_space c = (c \<in> set [CHR 0x20, CHR 0x09, CHR 0x0A, CHR 0x0B, CHR 0x0C, CHR 0x0D,
                             CHR 0x1C, CHR 0x1D, CHR 0x1E, CHR 0x1F])"

text \<open>Modelled from the spec: "the \<^verbatim>\<open>ORDER BY\<close> detection is case-insensitive and must
  detect it even with leading whitespace in the query" (\<^verbatim>\<open>SearchMixin.search_issues\<close> is
  missing). Letters are ASCII.\<close>

definition to_upper :: "char \<Rightarrow> char" where
  "to_upper c =
     (let n = (of_char c :: nat) in if 97 \<le> n \<and> n \<le> 122 then char_of (n - 32) else c)"

definition starts_with_order_by :: "string \<Rightarrow> bool" where
  "starts_with_order_by q = (take 8 (map to_upper (dropWhile is_space q)) = ''ORDER BY'')"

text \<open>Modelled from the spec: \<^verbatim>\<open>compose(query, project_keys)\<close>, row by row of the table
  of section 4.2 (\<^verbatim>\<open>SearchMixin.search_issues\<close> is missing). No keys: the query unchanged.
  Keys and an empty or absent query: the predicate. Keys and a query led by
  \<^verbatim>\<open>ORDER BY\<close>: the predicate, a space, the query verbatim. Keys and any other query:
  \<^verbatim>\<open>(query) AND\<close> and the predicate.\<close>

definition compose :: "string option \<Rightarrow> string list option \<Rightarrow> string option" where
  "compose query project_keys =
     (case project_keys of
        None \<Rightarrow> query
      | Some [] \<Rightarrow> query
      | Some keys \<Rightarrow>
          (case query of
             None \<Rightarrow> Some (project_predicate keys)
           | Some q \<Rightarrow>
               if q = [] then Some (project_predicate keys)
               else if starts_with_order_by q then Some (project_predicate keys @ '' '' @ q)
               else Some (''('' @ q @ '') AND '' @ project_predicate keys)))"

section \<open>The normalizer, branch by branch\<close>

text \<open>Each guarded conversion either yields the coerced value or lets the
  \<^verbatim>\<open>OverflowError\<close> of an infinite float through.\<close>

lemma int_or_default_cases:
  "int_or_default raw dflt =
     (if is_infinity raw then Inl OverflowError else Inr (coerced raw dflt))"
proof (cases raw)
  case (PFloat x)
  then show ?thesis by (cases x) (simp_all add: int_or_default_def coerced_def)
next
  case (PStr s)
  then show ?thesis by (cases "int_of_str s") (simp_all add: int_or_default_def coerced_def)
qed (simp_all add: int_or_default_def coerced_def)

text \<open>The loop appends, in order, the issue of every element that is not falsy.\<close>

lemma collect_issues_map_filter:
  "collect_issues kwargs acc xs = acc @ map (issue_of kwargs) (filter truthy xs)"
proof (induction xs arbitrary: acc)
  case Nil
  show ?case by simp
next
  case (Cons x xs)
  show ?case
  proof (cases "truthy x")
    case True
    then show ?thesis using Cons.IH by (cases x) (simp_all add: issue_of_def)
  next
    case False
    then show ?thesis using Cons.IH by simp
  qed
qed

lemma infers_total_iff:
  "(dict_get d ''total'' PNone = PNone \<and> dict_contains d ''isLast'') = infers_total d"
  by (auto simp: dict_get_def dict_contains_def infers_total_def split: option.splits)

text \<open>What \<^verbatim>\<open>from_api_response\<close> does on a non-empty dictionary, in one equation.\<close>

lemma from_api_response_dict:
  assumes "d \<noteq> []"
  shows "from_api_response (PDict d) kwargs =
    ([], if (\<not> infers_total d \<and> is_infinity (dict_get d ''total'' PNone))
            \<or> is_infinity (dict_get d ''startAt'' PNone)
            \<or> is_infinity (dict_get d ''maxResults'' PNone)
         then Inl OverflowError
         else Inr \<lparr>total = (if infers_total d
                             then (if truthy (dict_get d ''isLast'' PNone)
                                   then int (length (issues_in kwargs d)) else - 1)
                             else coerced (dict_get d ''total'' PNone) (- 1)),
                    start_at = coerced (dict_get d ''startAt'' PNone) 0,
                    max_results = coerced (dict_get d ''maxResults'' PNone) (- 1),
                    issues = issues_in kwargs d\<rparr>)"
proof -
  have iss: "(case dict_get d ''issues'' (PList []) of
                PList xs \<Rightarrow> collect_issues kwargs [] xs | _ \<Rightarrow> []) = issues_in kwargs d"
    by (simp add: issues_in_def collect_issues_map_filter split: pyval.splits)
  have last: "infers_total d \<Longrightarrow>
      dict_get d ''isLast'' (PBool False) = dict_get d ''isLast'' PNone"
    by (auto simp: infers_total_def dict_get_def)
  show ?thesis
    using assms last
    by (simp add: from_api_response_def Let_def iss infers_total_iff int_or_default_cases)
qed

text \<open>\<^verbatim>\<open>int()\<close> on strings: padded digits, no number, digits grouped by an underscore, and
  digits between two separators that \<^verbatim>\<open>int()\<close> does not skip.\<close>

lemma int_of_str_examples:
  "int_of_str '' 50 '' = Some 50"
  "int_of_str ''abc'' = None"
  "int_of_str ''-1_000'' = Some (- 1000)"
  "int_of_str [CHR 0x1C, CHR ''3'', CHR 0x1F] = None"
  by (simp_all add: int_of_str_def int_literal_def int_max_str_digits_def is_int_space_def
      is_digit_def digit_val_def)

text \<open>More digits than the limit are refused, whatever they are.\<close>

lemma int_of_str_over_limit:
  assumes "int_max_str_digits < length ds" and "\<forall>c \<in> set ds. is_digit c"
  shows "int_of_str ds = None"
proof -
  have nospace: "is_digit c \<Longrightarrow> \<not> is_int_space c" for c
    by (auto simp: is_digit_def is_int_space_def)
  have nosign: "is_digit c \<Longrightarrow> c \<noteq> CHR ''-'' \<and> c \<noteq> CHR ''+''" for c
    by (auto simp: is_digit_def)
  from assms(2) nospace have "\<forall>c \<in> set ds. \<not> is_int_space c" by blast
  then have keep: "\<And>xs. set xs = set ds \<Longrightarrow> dropWhile is_int_space xs = xs"
    by (metis dropWhile_eq_self_iff hd_in_set)
  from keep [of ds] keep [of "rev ds"]
  have same: "rev (dropWhile is_int_space (rev (dropWhile is_int_space ds))) = ds" by simp
  from assms(1) obtain c cs where ds: "ds = c # cs" by (cases ds) auto
  with assms(2) have dig: "is_digit c" by simp
  from assms(2) have all: "filter is_digit ds = ds" by simp
  from assms(1) all have "int_literal ds = None" by (simp add: int_literal_def)
  with same ds nosign [OF dig] show ?thesis by (simp add: int_of_str_def)
qed

text \<open>
  Off the infinite floats the three conversions do fall back as documented: on a
  non-empty dictionary none of whose pagination fields is an infinite float, \<^verbatim>\<open>start_at\<close>
  and \<^verbatim>\<open>max_results\<close> are the coerced fields, and so is \<^verbatim>\<open>total\<close> outside the branch that
  infers it. (Building an issue is taken not to raise: \<^verbatim>\<open>JiraIssue\<close> is not among the
  sources.)
\<close>

lemma pagination_fields_coerced:
  assumes "d \<noteq> []" and "no_infinite_field d"
  shows "\<exists>r. from_api_response (PDict d) kwargs = ([], Inr r)
           \<and> start_at r = coerced (dict_get d ''startAt'' PNone) 0
           \<and> max_results r = coerced (dict_get d ''maxResults'' PNone) (- 1)
           \<and> (\<not> infers_total d \<longrightarrow> total r = coerced (dict_get d ''total'' PNone) (- 1))"
  using assms
  by (simp add: from_api_response_dict no_infinite_field_def)

lemma coerced_fallback:
  "coerced PNone dflt = dflt"
  "py_int raw = Inl e \<Longrightarrow> coerced raw dflt = dflt"
  "py_int raw = Inr n \<Longrightarrow> coerced raw dflt = n"
  by (simp_all add: coerced_def)

section \<open>Properties of the normalizer\<close>

text \<open>
  Claim C5. For every raw input that is empty (\<^verbatim>\<open>None\<close> included) or not a mapping, the
  normalizer returns the zero-valued result (\<^verbatim>\<open>total=0, start_at=0, max_results=0,
  issues=[]\<close>) and raises nothing. The input that is not a mapping, and is not empty either,
  leaves exactly one record at debug level in the log; an empty input leaves none.
\<close>

theorem empty_or_non_mapping_gives_default:
  assumes "\<not> truthy data \<or> \<not> is_dict data"
  shows "snd (from_api_response data kwargs)
           = Inr \<lparr>total = 0, start_at = 0, max_results = 0, issues = []\<rparr>
       \<and> fst (from_api_response data kwargs)
           = (if truthy data
              then [Debug ''Received non-dictionary data, returning default instance'']
              else [])"
proof (cases "truthy data")
  case False
  then show ?thesis by (simp add: from_api_response_def default_result_def)
next
  case True
  with assms have "\<not> is_dict data" by simp
  with True show ?thesis
    by (cases data) (simp_all add: from_api_response_def default_result_def)
qed

theorem empty_or_non_mapping_gives_default_witness:
  "snd (from_api_response (PList [PInt 1]) [])
     = Inr \<lparr>total = 0, start_at = 0, max_results = 0, issues = []\<rparr>
   \<and> fst (from_api_response (PList [PInt 1]) [])
     = [Debug ''Received non-dictionary data, returning default instance'']
   \<and> from_api_response PNone []
     = ([], Inr \<lparr>total = 0, start_at = 0, max_results = 0, issues = []\<rparr>)
   \<and> from_api_response (PDict []) []
     = ([], Inr \<lparr>total = 0, start_at = 0, max_results = 0, issues = []\<rparr>)"
  using empty_or_non_mapping_gives_default [of "PList [PInt 1]" "[]"]
    empty_or_non_mapping_gives_default [of PNone "[]"]
    empty_or_non_mapping_gives_default [of "PDict []" "[]"]
  by (simp add: prod_eq_iff)

text \<open>
  Claim C1. For every raw response that has no \<^verbatim>\<open>total\<close> field and has an \<^verbatim>\<open>isLast\<close>
  field holding a boolean, the result's \<^verbatim>\<open>total\<close> is the number of issues in the result when
  \<^verbatim>\<open>isLast\<close> is true, and \<open>-1\<close> when it is false. This holds of every result the normalizer
  returns, and it returns one whenever no pagination field is an infinite float.
\<close>

theorem total_inferred_from_isLast:
  assumes "map_of d ''total'' = None" and "map_of d ''isLast'' = Some (PBool b)"
  shows "(\<forall>r. snd (from_api_response (PDict d) kwargs) = Inr r \<longrightarrow>
            total r = (if b then int (length (issues r)) else - 1))
       \<and> (no_infinite_field d \<longrightarrow> (\<exists>r. snd (from_api_response (PDict d) kwargs) = Inr r))"
proof -
  from assms(2) have ne: "d \<noteq> []" by auto
  from assms have inf: "infers_total d" by (simp add: infers_total_def)
  from assms(2) have last: "dict_get d ''isLast'' PNone = PBool b" by (simp add: dict_get_def)
  show ?thesis
    using inf last
    by (auto simp: from_api_response_dict [OF ne] no_infinite_field_def split: if_splits)
qed

theorem total_inferred_from_isLast_witness:
  "(\<exists>r. snd (from_api_response
        (PDict [(''issues'', PList [PStr ''A'', PDict [(''key'', PStr ''B'')]]),
                (''isLast'', PBool True)]) []) = Inr r
      \<and> total r = int (length (issues r)))
 \<and> (\<exists>r. snd (from_api_response
        (PDict [(''issues'', PList [PStr ''A'', PDict [(''key'', PStr ''B'')]]),
                (''isLast'', PBool False)]) []) = Inr r
      \<and> total r = - 1)"
proof -
  let ?xs = "PList [PStr ''A'', PDict [(''key'', PStr ''B'')]]"
  let ?t = "[(''issues'', ?xs), (''isLast'', PBool True)]"
  let ?f = "[(''issues'', ?xs), (''isLast'', PBool False)]"
  have nf: "no_infinite_field ?t" "no_infinite_field ?f"
    by (simp_all add: no_infinite_field_def dict_get_def)
  have tt: "map_of ?t ''total'' = None" "map_of ?t ''isLast'' = Some (PBool True)" by simp_all
  have ff: "map_of ?f ''total'' = None" "map_of ?f ''isLast'' = Some (PBool False)" by simp_all
  note t = total_inferred_from_isLast [OF tt, of "[]"]
  note f = total_inferred_from_isLast [OF ff, of "[]"]
  from t nf(1) obtain rt where rt: "snd (from_api_response (PDict ?t) []) = Inr rt" by blast
  from f nf(2) obtain rf where rf: "snd (from_api_response (PDict ?f) []) = Inr rf" by blast
  from t rt have 1: "total rt = int (length (issues rt))" by simp
  from f rf have 2: "total rf = - 1" by simp
  from rt rf 1 2 show ?thesis by blast
qed

text \<open>
  Claim C2. For each of the three pagination fields the normalizer attempts integer
  conversion and falls back to the documented default (\<^verbatim>\<open>total\<close> to \<open>-1\<close>, \<^verbatim>\<open>start_at\<close> to 0,
  \<^verbatim>\<open>max_results\<close> to \<open>-1\<close>) when the conversion fails or the field is absent, and it never
  lets an exception through. The code does not keep the last part: \<^verbatim>\<open>int()\<close> of an infinite
  float raises \<^verbatim>\<open>OverflowError\<close>, which \<^verbatim>\<open>except (ValueError, TypeError)\<close> does not catch.
  On each of the responses \<^verbatim>\<open>{"total": Infinity}\<close>, \<^verbatim>\<open>{"startAt": Infinity}\<close> and
  \<^verbatim>\<open>{"maxResults": -Infinity}\<close> the exception leaves the normalizer, where the claim
  has the defaults \<open>-1\<close>, 0 and \<open>-1\<close>.
\<close>

theorem infinite_pagination_field_raises:
  "snd (from_api_response (PDict [(''total'', PFloat PosInf)]) []) = Inl OverflowError
   \<and> snd (from_api_response (PDict [(''startAt'', PFloat PosInf)]) []) = Inl OverflowError
   \<and> snd (from_api_response (PDict [(''maxResults'', PFloat NegInf)]) []) = Inl OverflowError"
  by (simp add: from_api_response_dict infers_total_def dict_get_def)

text \<open>
  Claim C9. For every raw response whose \<^verbatim>\<open>issues\<close> value is a list, the result's issues are
  exactly the issues of the elements that are not falsy, one each and in the list's order;
  the falsy elements (\<^verbatim>\<open>None\<close>, the empty string, the empty dictionary, 0) are skipped.
  When \<^verbatim>\<open>total\<close> is inferred from a true \<^verbatim>\<open>isLast\<close> it is the number of the retained
  elements, which is at most the length of the raw list and can be less.
\<close>

theorem falsy_issue_elements_skipped:
  assumes "map_of d ''issues'' = Some (PList xs)"
  shows "(\<forall>r. snd (from_api_response (PDict d) kwargs) = Inr r \<longrightarrow>
            issues r = map (issue_of kwargs) (filter truthy xs)
            \<and> (infers_total d \<and> truthy (dict_get d ''isLast'' PNone) \<longrightarrow>
                 total r = int (length (filter truthy xs))))
       \<and> (no_infinite_field d \<longrightarrow> (\<exists>r. snd (from_api_response (PDict d) kwargs) = Inr r))
       \<and> length (filter truthy xs) \<le> length xs"
proof -
  from assms have ne: "d \<noteq> []" by auto
  from assms have iss: "issues_in kwargs d = map (issue_of kwargs) (filter truthy xs)"
    by (simp add: issues_in_def dict_get_def)
  show ?thesis
    using iss
    by (auto simp: from_api_response_dict [OF ne] no_infinite_field_def split: if_splits)
qed

theorem falsy_issue_elements_skipped_witness:
  "\<exists>r. snd (from_api_response
        (PDict [(''issues'', PList [PStr ''A'', PNone, PStr '''', PDict [], PInt 0,
                                     PDict [(''key'', PStr ''B'')]]),
                (''isLast'', PBool True)]) []) = Inr r
      \<and> issues r = [IssueKey ''A'', IssueFromResponse (PDict [(''key'', PStr ''B'')]) PNone]
      \<and> total r = 2
      \<and> total r < int (length [PStr ''A'', PNone, PStr '''', PDict [], PInt 0,
                                     PDict [(''key'', PStr ''B'')]])"
proof -
  let ?xs = "[PStr ''A'', PNone, PStr '''', PDict [], PInt 0, PDict [(''key'', PStr ''B'')]]"
  let ?d = "[(''issues'', PList ?xs), (''isLast'', PBool True)]"
  have h: "map_of ?d ''issues'' = Some (PList ?xs)" by simp
  have nf: "no_infinite_field ?d" by (simp add: no_infinite_field_def dict_get_def)
  have br: "infers_total ?d \<and> truthy (dict_get ?d ''isLast'' PNone)"
    by (simp add: infers_total_def dict_get_def)
  have kept: "map (issue_of []) (filter truthy ?xs)
      = [IssueKey ''A'', IssueFromResponse (PDict [(''key'', PStr ''B'')]) PNone]"
    by (simp add: issue_of_def dict_get_def)
  note t = falsy_issue_elements_skipped [OF h, of "[]"]
  from t nf obtain r where r: "snd (from_api_response (PDict ?d) []) = Inr r" by blast
  from t r have i: "issues r = map (issue_of []) (filter truthy ?xs)" by blast
  from t r br have n: "total r = int (length (filter truthy ?xs))" by blast
  from n have n2: "total r = 2" by simp
  from r i n2 kept show ?thesis by simp
qed

text \<open>
  Claim C10. On a non-empty mapping, \<^verbatim>\<open>total\<close> is inferred exactly when the key \<^verbatim>\<open>total\<close> is
  absent or bound to \<^verbatim>\<open>None\<close> while the key \<^verbatim>\<open>isLast\<close> is present, with any value. In that
  branch \<^verbatim>\<open>total\<close> is the number of issues when the value of \<^verbatim>\<open>isLast\<close> is true by Python's
  truth value testing (the string \<^verbatim>\<open>"false"\<close> is) and \<open>-1\<close> when it is not (\<^verbatim>\<open>False\<close>,
  \<^verbatim>\<open>None\<close>, 0, the empty string); outside it \<^verbatim>\<open>total\<close> is the coerced \<^verbatim>\<open>total\<close> field.
\<close>

theorem isLast_branch_condition:
  assumes "d \<noteq> []"
  shows "(\<forall>r. snd (from_api_response (PDict d) kwargs) = Inr r \<longrightarrow>
            total r =
              (if infers_total d
               then (if truthy (dict_get d ''isLast'' PNone) then int (length (issues r)) else - 1)
               else coerced (dict_get d ''total'' PNone) (- 1)))
       \<and> (no_infinite_field d \<longrightarrow> (\<exists>r. snd (from_api_response (PDict d) kwargs) = Inr r))
       \<and> truthy (PStr ''false'') \<and> \<not> truthy (PBool False) \<and> \<not> truthy PNone
       \<and> \<not> truthy (PInt 0) \<and> \<not> truthy (PStr '''')"
  by (auto simp: from_api_response_dict [OF assms] no_infinite_field_def split: if_splits)

theorem isLast_branch_condition_witness:
  "(\<exists>r. snd (from_api_response (PDict [(''isLast'', PStr ''false'')]) []) = Inr r
        \<and> total r = int (length (issues r)))
 \<and> (\<exists>r. snd (from_api_response (PDict [(''total'', PNone), (''isLast'', PNone)]) []) = Inr r
        \<and> total r = - 1)
 \<and> (\<exists>r. snd (from_api_response (PDict [(''total'', PInt 7), (''isLast'', PBool True)]) [])
          = Inr r
        \<and> total r = 7)
 \<and> (\<exists>r. snd (from_api_response (PDict [(''startAt'', PInt 0), (''maxResults'', PInt 50)]) [])
          = Inr r
        \<and> total r = - 1)"
proof -
  let ?a = "[(''isLast'', PStr ''false'')]"
  let ?b = "[(''total'', PNone), (''isLast'', PNone)]"
  let ?c = "[(''total'', PInt 7), (''isLast'', PBool True)]"
  let ?e = "[(''startAt'', PInt 0), (''maxResults'', PInt 50)]"
  have nf: "no_infinite_field ?a" "no_infinite_field ?b" "no_infinite_field ?c"
    "no_infinite_field ?e"
    by (simp_all add: no_infinite_field_def dict_get_def)
  have br: "infers_total ?a" "infers_total ?b" "\<not> infers_total ?c" "\<not> infers_total ?e"
    by (simp_all add: infers_total_def)
  have vals: "truthy (dict_get ?a ''isLast'' PNone)" "\<not> truthy (dict_get ?b ''isLast'' PNone)"
    "coerced (dict_get ?c ''total'' PNone) (- 1) = 7"
    "coerced (dict_get ?e ''total'' PNone) (- 1) = - 1"
    by (simp_all add: dict_get_def coerced_def)
  note ta = isLast_branch_condition [of ?a "[]"]
  note tb = isLast_branch_condition [of ?b "[]"]
  note tc = isLast_branch_condition [of ?c "[]"]
  note te = isLast_branch_condition [of ?e "[]"]
  from ta nf(1) obtain ra where ra: "snd (from_api_response (PDict ?a) []) = Inr ra" by blast
  from tb nf(2) obtain rb where rb: "snd (from_api_response (PDict ?b) []) = Inr rb" by blast
  from tc nf(3) obtain rc where rc: "snd (from_api_response (PDict ?c) []) = Inr rc" by blast
  from te nf(4) obtain re where re: "snd (from_api_response (PDict ?e) []) = Inr re" by blast
  from ta ra br(1) vals(1) have 1: "total ra = int (length (issues ra))" by simp
  from tb rb br(2) vals(2) have 2: "total rb = - 1" by simp
  from tc rc br(3) vals(3) have 3: "total rc = 7" by simp
  from te re br(4) vals(4) have 4: "total re = - 1" by simp
  from ra rb rc re 1 2 3 4 show ?thesis by blast
qed

section \<open>Detecting a leading \<^verbatim>\<open>ORDER BY\<close>\<close>

lemma to_upper_O_not_space: "to_upper c = CHR ''O'' \<Longrightarrow> \<not> is_space c"
  by (auto simp: is_space_def to_upper_def)

text \<open>Any spelling of \<^verbatim>\<open>ORDER BY\<close> in upper and lower case is detected behind any run of
  whitespace.\<close>

lemma order_by_detected:
  assumes "\<forall>c \<in> set ws. is_space c" and "map to_upper ob = ''ORDER BY''"
  shows "starts_with_order_by (ws @ ob @ rest)"
proof -
  have "length (map to_upper ob) = 8" unfolding assms(2) by simp
  then have len: "length ob = 8" by simp
  then obtain c cs where ob: "ob = c # cs" by (cases ob) auto
  with assms(2) have "to_upper c = CHR ''O''" by simp
  then have "\<not> is_space c" by (rule to_upper_O_not_space)
  with ob have 1: "dropWhile is_space (ob @ rest) = ob @ rest" by simp
  from assms(1) have 2: "dropWhile is_space (ws @ ob @ rest) = dropWhile is_space (ob @ rest)"
    by (simp add: dropWhile_append2)
  from len assms(2) have "take 8 (map to_upper (ob @ rest)) = ''ORDER BY''" by simp
  with 1 2 show ?thesis by (simp add: starts_with_order_by_def)
qed

lemma order_by_examples:
  "starts_with_order_by ''ORDER BY created DESC''"
  "starts_with_order_by ''order by updated ASC''"
  "starts_with_order_by ''  ORDER BY priority DESC  ''"
  "\<not> starts_with_order_by ''summary ~ bug''"
  by code_simp+

section \<open>Properties of the query composer\<close>

text \<open>
  Claim C6. For every input query, absent or not, composing with zero project keys (an
  empty or an absent key list) returns the query unchanged.
\<close>

theorem compose_without_keys_is_identity:
  "compose query None = query \<and> compose query (Some []) = query"
  by (simp add: compose_def)

text \<open>
  Claim C3. With a non-empty list of project keys, a non-empty query that does not start
  with \<^verbatim>\<open>ORDER BY\<close> composes to \<^verbatim>\<open>(query) AND\<close> followed by the project predicate, and an
  empty or absent query composes to the bare predicate, with no \<^verbatim>\<open>AND\<close> and no parentheses.
  The predicate is \<^verbatim>\<open>project = "K"\<close> for a single key and
  \<^verbatim>\<open>project IN ("K1", "K2", ...)\<close> for several.
\<close>

theorem compose_scopes_query:
  assumes "keys \<noteq> []"
  shows "(q \<noteq> [] \<and> \<not> starts_with_order_by q \<longrightarrow>
            compose (Some q) (Some keys) = Some (''('' @ q @ '') AND '' @ project_predicate keys))
       \<and> compose (Some []) (Some keys) = Some (project_predicate keys)
       \<and> compose None (Some keys) = Some (project_predicate keys)
       \<and> project_predicate [k] = ''project = '' @ [CHR 0x22] @ k @ [CHR 0x22]
       \<and> project_predicate (k1 # k2 # ks)
           = ''project IN ('' @ join '', '' (map quoted (k1 # k2 # ks)) @ '')''"
  using assms
  by (cases keys) (simp_all add: compose_def project_predicate_def quoted_def)

theorem compose_scopes_query_witness:
  "compose (Some ''summary ~ bug'') (Some [''TEST''])
     = Some (''(summary ~ bug) AND project = '' @ [CHR 0x22] @ ''TEST'' @ [CHR 0x22])
   \<and> compose (Some ''summary ~ bug'') (Some [''TEST'', ''DEV''])
     = Some (''(summary ~ bug) AND project IN ('' @ [CHR 0x22] @ ''TEST'' @ [CHR 0x22] @ '', ''
             @ [CHR 0x22] @ ''DEV'' @ [CHR 0x22] @ '')'')
   \<and> compose (Some '''') (Some [''PROJ1''])
     = Some (''project = '' @ [CHR 0x22] @ ''PROJ1'' @ [CHR 0x22])
   \<and> compose None (Some [''PROJ1'', ''PROJ2''])
     = Some (''project IN ('' @ [CHR 0x22] @ ''PROJ1'' @ [CHR 0x22] @ '', ''
             @ [CHR 0x22] @ ''PROJ2'' @ [CHR 0x22] @ '')'')"
  using compose_scopes_query [of "[''TEST'']" "''summary ~ bug''" "''TEST''" "''TEST''" "''DEV''" "[]"]
    compose_scopes_query [of "[''TEST'', ''DEV'']" "''summary ~ bug''" "''TEST''" "''TEST''" "''DEV''" "[]"]
    compose_scopes_query [of "[''PROJ1'']" "''summary ~ bug''" "''PROJ1''" "''PROJ1''" "''PROJ2''" "[]"]
    compose_scopes_query [of "[''PROJ1'', ''PROJ2'']" "''summary ~ bug''" "''PROJ1''" "''PROJ1''" "''PROJ2''" "[]"]
    order_by_examples(4)
  by (simp add: quoted_def)

text \<open>
  Claim C4. A query that starts with \<^verbatim>\<open>ORDER BY\<close> composes, with a non-empty list of project
  keys, to the project predicate, one space, and the query as it was given, its whitespace
  and its letter case untouched. The clause is found whatever the case of its letters and
  whatever whitespace stands in front of it.
\<close>

theorem compose_keeps_order_by:
  assumes "keys \<noteq> []"
  shows "(starts_with_order_by q \<longrightarrow>
            compose (Some q) (Some keys) = Some (project_predicate keys @ '' '' @ q))
       \<and> ((\<forall>c \<in> set ws. is_space c) \<and> map to_upper ob = ''ORDER BY'' \<longrightarrow>
            compose (Some (ws @ ob @ rest)) (Some keys)
              = Some (project_predicate keys @ '' '' @ ws @ ob @ rest))"
proof -
  have nonempty: "starts_with_order_by s \<Longrightarrow> s \<noteq> []" for s
    by (auto simp: starts_with_order_by_def)
  have led: "starts_with_order_by s \<Longrightarrow>
      compose (Some s) (Some keys) = Some (project_predicate keys @ '' '' @ s)" for s
    using assms nonempty [of s] by (cases keys) (simp_all add: compose_def)
  show ?thesis
    using led [of q] led [of "ws @ ob @ rest"] order_by_detected [of ws ob rest] by simp
qed

theorem compose_keeps_order_by_witness:
  "compose (Some ''ORDER BY created DESC'') (Some [''PROJ1''])
     = Some (''project = '' @ [CHR 0x22] @ ''PROJ1'' @ [CHR 0x22] @ '' ORDER BY created DESC'')
   \<and> compose (Some ''order by updated ASC'') (Some [''PROJ1''])
     = Some (''project = '' @ [CHR 0x22] @ ''PROJ1'' @ [CHR 0x22] @ '' order by updated ASC'')
   \<and> compose (Some ''  ORDER BY priority DESC  '') (Some [''PROJ1'', ''PROJ2''])
     = Some (''project IN ('' @ [CHR 0x22] @ ''PROJ1'' @ [CHR 0x22] @ '', ''
             @ [CHR 0x22] @ ''PROJ2'' @ [CHR 0x22] @ '')   ORDER BY priority DESC  '')"
proof -
  have sp: "\<forall>c \<in> set ''  ''. is_space c" by (simp add: is_space_def)
  have up: "map to_upper ''order by'' = ''ORDER BY''" "map to_upper ''ORDER BY'' = ''ORDER BY''"
    by code_simp+
  have k: "[''PROJ1''] \<noteq> []" "[''PROJ1'', ''PROJ2''] \<noteq> []" by simp_all
  have p: "project_predicate [''PROJ1''] = ''project = '' @ [CHR 0x22] @ ''PROJ1'' @ [CHR 0x22]"
    "project_predicate [''PROJ1'', ''PROJ2'']
       = ''project IN ('' @ [CHR 0x22] @ ''PROJ1'' @ [CHR 0x22] @ '', ''
           @ [CHR 0x22] @ ''PROJ2'' @ [CHR 0x22] @ '')''"
    by (simp_all add: project_predicate_def quoted_def)
  from compose_keeps_order_by [OF k(1), of "''ORDER BY created DESC''" "[]" "[]" "[]"]
    order_by_examples(1) p(1)
  have 1: "compose (Some ''ORDER BY created DESC'') (Some [''PROJ1''])
     = Some (''project = '' @ [CHR 0x22] @ ''PROJ1'' @ [CHR 0x22] @ '' ORDER BY created DESC'')"
    by simp
  from compose_keeps_order_by [OF k(1), of "[]" "[]" "''order by''" "'' updated ASC''"] up(1) p(1)
  have 2: "compose (Some ''order by updated ASC'') (Some [''PROJ1''])
     = Some (''project = '' @ [CHR 0x22] @ ''PROJ1'' @ [CHR 0x22] @ '' order by updated ASC'')"
    by simp
  from compose_keeps_order_by [OF k(2), of "[]" "''  ''" "''ORDER BY''" "'' priority DESC  ''"]
    sp up(2) p(2)
  have 3: "compose (Some ''  ORDER BY priority DESC  '') (Some [''PROJ1'', ''PROJ2''])
     = Some (''project IN ('' @ [CHR 0x22] @ ''PROJ1'' @ [CHR 0x22] @ '', ''
             @ [CHR 0x22] @ ''PROJ2'' @ [CHR 0x22] @ '')   ORDER BY priority DESC  '')"
    by simp
  from 1 2 3 show ?thesis by simp
qed

end
